theory Spec2Isabelle
  imports Complex_Main
begin

section \<open>Offboard flight controller node: data model\<close>

text \<open>
  Embedding of \<^verbatim>\<open>wpi_drone/vehicle_position_listener.py\<close>
  (class \<^verbatim>\<open>VehicleGlobalPositionListener\<close>).

  Python floats are idealised as real numbers and Python integers are \<^typ>\<open>int\<close>.
  The node's attributes form the record \<open>node\<close>; every method takes the node and returns
  the updated one. A Python list argument is a HOL list, and indexing past its end is the
  error value \<open>IndexError\<close>; subscripting \<^verbatim>\<open>None\<close> is \<open>TypeError\<close>. Log output is
  not part of the model. The reading of the node's clock, \<^verbatim>\<open>int(self.get_clock().now().nanoseconds / 1000)\<close>, is an input
  of the methods that stamp a message.
\<close>

datatype error = IndexError | TypeError

text \<open>The fields of the PX4 messages that the node reads or writes.\<close>

record VehicleLocalPosition =
  lp_x :: real
  lp_y :: real
  lp_z :: real
  lp_heading :: real
  lp_dist_bottom :: real
  lp_dist_bottom_valid :: bool

record VehicleStatus =
  timestamp :: int
  arming_state :: int
  takeoff_time :: int
  nav_state :: int

record VehicleOdometry =
  odo_timestamp :: int

record BatteryStatus =
  bat_remaining :: real
  bat_warning :: int

record TrajectorySetpoint =
  sp_position :: "real \<times> real \<times> real"
  sp_yaw :: real
  sp_timestamp :: int

record OffboardControlMode =
  ocm_position :: bool
  ocm_velocity :: bool
  ocm_acceleration :: bool
  ocm_attitude :: bool
  ocm_body_rate :: bool
  ocm_timestamp :: int

text \<open>
  A default-constructed \<^verbatim>\<open>VehicleLocalPosition()\<close> (line 53). The message class
  belongs to \<^verbatim>\<open>px4_msgs\<close>; a ROS 2 message without declared defaults is
  constructed with every number zero and every flag false.
\<close>

definition VehicleLocalPosition_default :: VehicleLocalPosition where
  "VehicleLocalPosition_default =
     \<lparr>lp_x = 0, lp_y = 0, lp_z = 0, lp_heading = 0,
      lp_dist_bottom = 0, lp_dist_bottom_valid = False\<rparr>"

text \<open>
  The node. \<open>home_coord_offset\<close> is only ever assigned a three-element list literal
  (lines 39 and 195) and a setpoint's position is a \<^verbatim>\<open>float32[3]\<close>, so both are triples.
  \<open>offboard_control_mode_out\<close> and \<open>trajectory_setpoint_out\<close> are the messages handed
  to the two publishers' \<^verbatim>\<open>publish\<close>, oldest first.
\<close>

record node =
  isArmed :: bool
  isFlying :: bool
  isOffboard :: bool
  arm_timestamp :: "int option"
  flight_start_timestamp :: "int option"
  initialization_counter :: int
  home_coord_offset :: "real \<times> real \<times> real"
  last_traj_setpoint_msg :: "TrajectorySetpoint option"
  status_var_temp :: int
  vehicle_status :: "VehicleStatus option"
  vehicle_local_position :: VehicleLocalPosition
  vehicle_odometry :: "VehicleOdometry option"
  battery_status :: "BatteryStatus option"
  offboard_control_mode_out :: "OffboardControlMode list"
  trajectory_setpoint_out :: "TrajectorySetpoint list"

text \<open>The node after \<^verbatim>\<open>__init__\<close> (lines 33-55).\<close>

definition init :: node where
  "init =
     \<lparr>isArmed = False, isFlying = False, isOffboard = False,
      arm_timestamp = None, flight_start_timestamp = None,
      initialization_counter = 0,
      home_coord_offset = (0, 0, 0),
      last_traj_setpoint_msg = None,
      status_var_temp = 0,
      vehicle_status = None,
      vehicle_local_position = VehicleLocalPosition_default,
      vehicle_odometry = None,
      battery_status = None,
      offboard_control_mode_out = [],
      trajectory_setpoint_out = []\<rparr>"

section \<open>Helpers for Python semantics\<close>

text \<open>\<^verbatim>\<open>xs[i]\<close> for a literal index \<open>i \<ge> 0\<close>.\<close>

definition idx :: "'a list \<Rightarrow> nat \<Rightarrow> error + 'a" where
  "idx xs i = (if i < length xs then Inr (xs ! i) else Inl IndexError)"

text \<open>Sequencing of computations that may raise.\<close>

definition bind_err :: "error + 'a \<Rightarrow> ('a \<Rightarrow> error + 'b) \<Rightarrow> error + 'b" where
  "bind_err m f = (case m of Inl e \<Rightarrow> Inl e | Inr v \<Rightarrow> f v)"

text \<open>Python's \<^verbatim>\<open>a % b\<close> on floats, for \<open>b \<noteq> 0\<close>: the result has the sign of \<open>b\<close>.\<close>

definition fmod_py :: "real \<Rightarrow> real \<Rightarrow> real" where
  "fmod_py a b = a - b * of_int \<lfloor>a / b\<rfloor>"

definition vec3_list :: "real \<times> real \<times> real \<Rightarrow> real list" where
  "vec3_list v = (case v of (a, b, c) \<Rightarrow> [a, b, c])"

section \<open>Telemetry callbacks\<close>

definition vehicle_local_position_callback :: "VehicleLocalPosition \<Rightarrow> node \<Rightarrow> node" where
  "vehicle_local_position_callback msg st = st\<lparr>vehicle_local_position := msg\<rparr>"

definition vehicle_odometry_callback :: "VehicleOdometry \<Rightarrow> node \<Rightarrow> node" where
  "vehicle_odometry_callback msg st = st\<lparr>vehicle_odometry := Some msg\<rparr>"

definition battery_status_callback :: "BatteryStatus \<Rightarrow> node \<Rightarrow> node" where
  "battery_status_callback msg st = st\<lparr>battery_status := Some msg\<rparr>"

text \<open>\<^verbatim>\<open>vehicle_status_callback\<close> (lines 175-197), statement by statement.\<close>

definition vehicle_status_callback :: "VehicleStatus \<Rightarrow> node \<Rightarrow> node" where
  "vehicle_status_callback msg st =
     (let s1 = st\<lparr>vehicle_status := Some msg,
                   isArmed := (arming_state msg = 2),
                   isFlying := (takeoff_time msg > 0),
                   isOffboard := (nav_state msg = 14)\<rparr>;
          s2 = (if isArmed s1
                then (if arm_timestamp s1 = None
                      then s1\<lparr>arm_timestamp := Some (timestamp msg)\<rparr>
                      else s1)
                else s1\<lparr>arm_timestamp := None, initialization_counter := 0\<rparr>);
          s3 = (if isFlying s2
                then (if flight_start_timestamp s2 = None
                      then s2\<lparr>flight_start_timestamp := Some (timestamp msg),
                              home_coord_offset :=
                                (lp_x (vehicle_local_position s2),
                                 lp_y (vehicle_local_position s2),
                                 lp_z (vehicle_local_position s2))\<rparr>
                      else s2)
                else s2\<lparr>flight_start_timestamp := None\<rparr>)
      in s3)"

section \<open>Publishers\<close>

text \<open>\<^verbatim>\<open>publish_offboard_control_heartbeat_signal\<close> (lines 427-436).\<close>

definition publish_offboard_control_heartbeat_signal :: "int \<Rightarrow> node \<Rightarrow> node" where
  "publish_offboard_control_heartbeat_signal now st =
     st\<lparr>offboard_control_mode_out := offboard_control_mode_out st @
          [\<lparr>ocm_position = True, ocm_velocity = False, ocm_acceleration = False,
            ocm_attitude = False, ocm_body_rate = False, ocm_timestamp = now\<rparr>]\<rparr>"

text \<open>
  \<^verbatim>\<open>publish_trajectory_setpoint\<close> (lines 457-469). The message is built and kept in
  \<open>last_traj_setpoint_msg\<close>; the call of the publisher in line 469 is commented out in
  the source, so \<open>trajectory_setpoint_out\<close> is not written.
\<close>

definition publish_trajectory_setpoint ::
    "int \<Rightarrow> real list \<Rightarrow> real option \<Rightarrow> node \<Rightarrow> error + node" where
  "publish_trajectory_setpoint now position yaw st =
     (case home_coord_offset st of (h0, h1, h2) \<Rightarrow>
        bind_err (idx position 0) (\<lambda>p0.
        bind_err (idx position 1) (\<lambda>p1.
        bind_err (idx position 2) (\<lambda>p2.
          Inr (st\<lparr>last_traj_setpoint_msg := Some
                 \<lparr>sp_position = (p0 + h0, p1 + h1, p2 + h2),
                  sp_yaw = (case yaw of
                              Some y \<Rightarrow> y * (pi / 180)
                            | None \<Rightarrow> lp_heading (vehicle_local_position st)),
                  sp_timestamp = now\<rparr>\<rparr>)))))"

section \<open>Frame transform\<close>

text \<open>\<^verbatim>\<open>heading_to_px4_yaw\<close> (lines 473-479).\<close>

definition heading_to_px4_yaw :: "real \<Rightarrow> real" where
  "heading_to_px4_yaw heading =
     (let h1 = fmod_py heading 360;
          h2 = (if h1 > 180 then h1 - 360 else h1)
      in h2 * (pi / 180))"

text \<open>\<^verbatim>\<open>px4_yaw_to_heading\<close> (lines 481-484).\<close>

definition px4_yaw_to_heading :: "real \<Rightarrow> real" where
  "px4_yaw_to_heading yaw = fmod_py (yaw * (180 / pi)) 360"

text \<open>\<^verbatim>\<open>ned_point_from_flu_offset\<close> (lines 487-500).\<close>

definition ned_point_from_flu_offset :: "node \<Rightarrow> real list \<Rightarrow> real list \<Rightarrow> error + real list" where
  "ned_point_from_flu_offset st curr_ned_pos offset_flu =
     (let yaw_current = lp_heading (vehicle_local_position st) in
        bind_err (idx offset_flu 0) (\<lambda>f0.
        bind_err (idx offset_flu 1) (\<lambda>f1.
        bind_err (idx offset_flu 2) (\<lambda>f2.
          (let rotated_flu_x = f0 * cos yaw_current + f1 * sin yaw_current;
               rotated_flu_y = f0 * sin yaw_current - f1 * cos yaw_current;
               rotated_flu_z = f2
           in bind_err (idx curr_ned_pos 0) (\<lambda>c0.
              bind_err (idx curr_ned_pos 1) (\<lambda>c1.
              bind_err (idx curr_ned_pos 2) (\<lambda>c2.
                Inr [c0 + rotated_flu_x, c1 + rotated_flu_y, c2 + - rotated_flu_z]))))))))"

section \<open>Setpoint tracking\<close>

text \<open>\<^verbatim>\<open>get_current_ned_pos\<close> (lines 513-516).\<close>

definition get_current_ned_pos :: "node \<Rightarrow> real list" where
  "get_current_ned_pos st =
     (case home_coord_offset st of (h0, h1, h2) \<Rightarrow>
        [lp_x (vehicle_local_position st) - h0,
         lp_y (vehicle_local_position st) - h1,
         lp_z (vehicle_local_position st) - h2])"

text \<open>\<^verbatim>\<open>get_ned_pos\<close> (lines 525-528).\<close>

definition get_ned_pos :: "node \<Rightarrow> real list \<Rightarrow> error + real list" where
  "get_ned_pos st target =
     (case home_coord_offset st of (h0, h1, h2) \<Rightarrow>
        bind_err (idx target 0) (\<lambda>t0.
        bind_err (idx target 1) (\<lambda>t1.
        bind_err (idx target 2) (\<lambda>t2.
          Inr [t0 - h0, t1 - h1, t2 - h2]))))"

text \<open>\<^verbatim>\<open>get_traj_setpoint\<close> (lines 518-523); Python's \<^verbatim>\<open>None\<close> result is \<open>None\<close>.\<close>

definition get_traj_setpoint :: "node \<Rightarrow> error + real list option" where
  "get_traj_setpoint st =
     (case last_traj_setpoint_msg st of
        None \<Rightarrow> Inr None
      | Some msg \<Rightarrow> bind_err (get_ned_pos st (vec3_list (sp_position msg))) (\<lambda>p. Inr (Some p)))"

text \<open>
  \<^verbatim>\<open>is_at_position\<close> (lines 530-537). The argument of \<^verbatim>\<open>math.sqrt\<close> is a sum
  of squares, so the square root is always defined.
\<close>

definition is_at_position :: "node \<Rightarrow> real list \<Rightarrow> real \<Rightarrow> error + bool" where
  "is_at_position st target threshold =
     (let curr_pos = get_current_ned_pos st in
        bind_err (idx curr_pos 0) (\<lambda>c0.
        bind_err (idx target 0) (\<lambda>t0.
        bind_err (idx curr_pos 1) (\<lambda>c1.
        bind_err (idx target 1) (\<lambda>t1.
        bind_err (idx curr_pos 2) (\<lambda>c2.
        bind_err (idx target 2) (\<lambda>t2.
          if sqrt ((c0 - t0)\<^sup>2 + (c1 - t1)\<^sup>2 + (c2 - t2)\<^sup>2) < threshold
          then Inr True else Inr False)))))))"

text \<open>
  \<^verbatim>\<open>is_at_traj_setpoint\<close> (lines 539-545). With a message stored,
  \<^verbatim>\<open>get_traj_setpoint\<close> returns a list, which is passed on.
\<close>

definition is_at_traj_setpoint :: "node \<Rightarrow> real \<Rightarrow> error + bool" where
  "is_at_traj_setpoint st threshold =
     (if last_traj_setpoint_msg st = None then Inr False
      else bind_err (get_traj_setpoint st) (\<lambda>r.
             case r of
               Some target \<Rightarrow> is_at_position st target threshold
             | None \<Rightarrow> Inl TypeError))"

section \<open>Control loop\<close>

text \<open>
  \<^verbatim>\<open>timer_callback\<close> (lines 209-258): the heartbeat, then the mission steps under
  the readiness and debounce guards, in the order of the \<^verbatim>\<open>if/elif\<close> chain.
\<close>

definition mission_step :: "int \<Rightarrow> node \<Rightarrow> error + node" where
  "mission_step now st =
     (if status_var_temp st = 0 then Inr (st\<lparr>status_var_temp := 1\<rparr>)
      else if status_var_temp st = 1 then
        bind_err (ned_point_from_flu_offset st (get_current_ned_pos st) [0, -1, 0]) (\<lambda>offset.
        bind_err (publish_trajectory_setpoint now offset None st) (\<lambda>s1.
          Inr (s1\<lparr>status_var_temp := 2\<rparr>)))
      else if status_var_temp st = 2 then
        bind_err (is_at_traj_setpoint st 0.05) (\<lambda>b.
          if b then Inr (st\<lparr>status_var_temp := 3\<rparr>) else Inr st)
      else if status_var_temp st = 3 then
        bind_err (ned_point_from_flu_offset st (get_current_ned_pos st) [0, 1, 0]) (\<lambda>offset.
        bind_err (publish_trajectory_setpoint now offset None st) (\<lambda>s1.
          Inr (s1\<lparr>status_var_temp := 4\<rparr>)))
      else if status_var_temp st = 4 then
        bind_err (is_at_traj_setpoint st 0.05) (\<lambda>b.
          if b then Inr (st\<lparr>status_var_temp := 5\<rparr>) else Inr st)
      else if status_var_temp st = 5 then Inr (st\<lparr>status_var_temp := 6\<rparr>)
      else Inr st)"

definition timer_callback :: "int \<Rightarrow> node \<Rightarrow> error + node" where
  "timer_callback now st =
     (let s0 = publish_offboard_control_heartbeat_signal now st in
        if vehicle_status s0 = None then Inr s0
        else if isArmed s0 \<and> isFlying s0 \<and> isOffboard s0 then
          (if initialization_counter s0 \<ge> 50 then mission_step now s0
           else Inr (s0\<lparr>initialization_counter := initialization_counter s0 + 1\<rparr>))
        else Inr s0)"

section \<open>Runs of the node\<close>

text \<open>
  What the executor delivers to the node: a tick of the 0.1 s timer (with the clock
  reading used to stamp messages) or a message on one of the four subscriptions.
\<close>

datatype event =
    Tick int
  | StatusMsg VehicleStatus
  | LocalPositionMsg VehicleLocalPosition
  | OdometryMsg VehicleOdometry
  | BatteryMsg BatteryStatus

fun is_tick :: "event \<Rightarrow> bool" where
  "is_tick (Tick now) = True"
| "is_tick e = False"

fun is_position_event :: "event \<Rightarrow> bool" where
  "is_position_event (LocalPositionMsg msg) = True"
| "is_position_event e = False"

fun step :: "event \<Rightarrow> node \<Rightarrow> error + node" where
  "step (Tick now) st = timer_callback now st"
| "step (StatusMsg msg) st = Inr (vehicle_status_callback msg st)"
| "step (LocalPositionMsg msg) st = Inr (vehicle_local_position_callback msg st)"
| "step (OdometryMsg msg) st = Inr (vehicle_odometry_callback msg st)"
| "step (BatteryMsg msg) st = Inr (battery_status_callback msg st)"

text \<open>Callbacks run one after the other; an exception leaves the run.\<close>

fun run :: "event list \<Rightarrow> node \<Rightarrow> error + node" where
  "run [] st = Inr st"
| "run (e # es) st = bind_err (step e st) (run es)"

section \<open>The specification's wording of the conversions\<close>

text \<open>
  The heading-to-yaw conversion as the specification words it: normalise modulo 360,
  subtract 360 above 180, convert to radians, negate.
\<close>

definition headingDegreesToYawRadians_spec :: "real \<Rightarrow> real" where
  "headingDegreesToYawRadians_spec h =
     (let n = h - 360 * of_int \<lfloor>h / 360\<rfloor>;
          d = (if n > 180 then n - 360 else n)
      in - (d * (pi / 180)))"

text \<open>Vector arithmetic in which the specification states positions and distances.\<close>

fun vec3_add :: "real \<times> real \<times> real \<Rightarrow> real \<times> real \<times> real \<Rightarrow> real \<times> real \<times> real" where
  "vec3_add (a1, a2, a3) (b1, b2, b3) = (a1 + b1, a2 + b2, a3 + b3)"

fun vec3_sub :: "real \<times> real \<times> real \<Rightarrow> real \<times> real \<times> real \<Rightarrow> real \<times> real \<times> real" where
  "vec3_sub (a1, a2, a3) (b1, b2, b3) = (a1 - b1, a2 - b2, a3 - b3)"

fun euclidean_distance :: "real \<times> real \<times> real \<Rightarrow> real \<times> real \<times> real \<Rightarrow> real" where
  "euclidean_distance (a1, a2, a3) (b1, b2, b3) =
     sqrt ((a1 - b1)\<^sup>2 + (a2 - b2)\<^sup>2 + (a3 - b3)\<^sup>2)"

text \<open>The position estimate as a vector.\<close>

definition estimated_position :: "node \<Rightarrow> real \<times> real \<times> real" where
  "estimated_position st =
     (lp_x (vehicle_local_position st), lp_y (vehicle_local_position st),
      lp_z (vehicle_local_position st))"

section \<open>Auxiliary definitions for the proofs\<close>

text \<open>
  The node after the sequencer has recorded the setpoint that lies \<open>l\<close> metres to the
  left of the current position estimate (\<open>mission_step\<close> at steps 1 and 3, with
  \<open>l = -1\<close> and \<open>l = 1\<close>): home offset subtracted and added again, heading kept.
\<close>

definition record_offset :: "int \<Rightarrow> real \<Rightarrow> node \<Rightarrow> node" where
  "record_offset now l st =
     st\<lparr>last_traj_setpoint_msg := Some
        \<lparr>sp_position =
           (lp_x (vehicle_local_position st) + l * sin (lp_heading (vehicle_local_position st)),
            lp_y (vehicle_local_position st) - l * cos (lp_heading (vehicle_local_position st)),
            lp_z (vehicle_local_position st)),
         sp_yaw = lp_heading (vehicle_local_position st),
         sp_timestamp = now\<rparr>\<rparr>"

text \<open>
  What holds of the node as long as no position estimate has arrived: the estimate is
  the default-constructed one, and a setpoint is stored exactly at step 2, at \<open>(0, 1, 0)\<close>.
\<close>

definition no_position_inv :: "node \<Rightarrow> bool" where
  "no_position_inv st =
     (vehicle_local_position st = VehicleLocalPosition_default \<and>
      (if last_traj_setpoint_msg st = None
       then status_var_temp st = 0 \<or> status_var_temp st = 1
       else status_var_temp st = 2 \<and>
            map_option sp_position (last_traj_setpoint_msg st) = Some (0, 1, 0)))"

text \<open>Telemetry used in the example runs.\<close>

definition ready_status :: VehicleStatus where
  "ready_status = \<lparr>timestamp = 1, arming_state = 2, takeoff_time = 1, nav_state = 14\<rparr>"

definition disarmed_status :: VehicleStatus where
  "disarmed_status = \<lparr>timestamp = 2, arming_state = 1, takeoff_time = 1, nav_state = 14\<rparr>"

definition local_position_at :: "real \<Rightarrow> real \<Rightarrow> real \<Rightarrow> VehicleLocalPosition" where
  "local_position_at n e d =
     \<lparr>lp_x = n, lp_y = e, lp_z = d, lp_heading = 0,
      lp_dist_bottom = 0, lp_dist_bottom_valid = False\<rparr>"

section \<open>Frame transform: properties\<close>

text \<open>
  C1. For every current NED position \<open>(px, py, pz)\<close>, every FLU offset \<open>(f, l, u)\<close> and
  the yaw \<open>\<psi>\<close> read from the node's position estimate, the transform returns
  \<open>(px + f cos \<psi> + l sin \<psi>, py + f sin \<psi> - l cos \<psi>, pz - u)\<close>, without raising.
\<close>

theorem ned_point_from_flu_offset_formula:
  "ned_point_from_flu_offset st [px, py, pz] [f, l, u] =
     Inr [px + f * cos (lp_heading (vehicle_local_position st))
             + l * sin (lp_heading (vehicle_local_position st)),
          py + f * sin (lp_heading (vehicle_local_position st))
             - l * cos (lp_heading (vehicle_local_position st)),
          pz - u]"
  by (simp add: ned_point_from_flu_offset_def idx_def bind_err_def Let_def)

text \<open>
  C2 (as stated, refuted). At yaw 0 the offset \<open>(0, -1, 0)\<close> is not added as it stands:
  from the origin the transform returns \<open>(0, 1, 0)\<close>, not \<open>(0, -1, 0)\<close>.
\<close>

theorem ned_point_left_offset_counterexample:
  "lp_heading (vehicle_local_position init) = 0 \<and>
   ned_point_from_flu_offset init [0, 0, 0] [0, - 1, 0] = Inr [0, 1, 0] \<and>
   ned_point_from_flu_offset init [0, 0, 0] [0, - 1, 0] \<noteq> Inr [0 + 0, 0 + - 1, 0 + 0]"
  by (simp add: ned_point_from_flu_offset_def idx_def bind_err_def Let_def init_def
      VehicleLocalPosition_default_def)

text \<open>
  C2 (amended). When the current yaw is 0, the transform of a position with the FLU
  offset \<open>(0, -1, 0)\<close> returns the position moved by \<open>(0, +1, 0)\<close>: one metre to the
  right of a vehicle facing north is one metre east.
\<close>

theorem ned_point_left_offset_zero_yaw:
  "lp_heading (vehicle_local_position st) = 0 \<Longrightarrow>
   ned_point_from_flu_offset st [px, py, pz] [0, - 1, 0] = Inr [px, py + 1, pz]"
  by (simp add: ned_point_from_flu_offset_def idx_def bind_err_def Let_def)

theorem ned_point_left_offset_zero_yaw_witness:
  "lp_heading (vehicle_local_position init) = 0 \<and>
   ned_point_from_flu_offset init [1, 2, 3] [0, - 1, 0] = Inr [1, 3, 3]"
proof -
  have h: "lp_heading (vehicle_local_position init) = 0"
    by (simp add: init_def VehicleLocalPosition_default_def)
  show ?thesis using h ned_point_left_offset_zero_yaw [OF h, of 1 2 3] by simp
qed

lemma fmod_py_360_range: "0 \<le> fmod_py h 360 \<and> fmod_py h 360 < 360"
proof -
  have a: "of_int \<lfloor>h / 360\<rfloor> \<le> h / 360" by (rule of_int_floor_le)
  have b: "h / 360 < of_int \<lfloor>h / 360\<rfloor> + 1" by linarith
  show ?thesis unfolding fmod_py_def using a b by (simp add: field_simps)
qed

text \<open>
  C3 (as stated, refuted). The conversion does not negate: heading 90 gives yaw
  \<open>\<pi>/2\<close>, where the specification's wording gives \<open>-\<pi>/2\<close>.
\<close>

theorem heading_to_px4_yaw_counterexample:
  "heading_to_px4_yaw 90 = pi / 2 \<and>
   headingDegreesToYawRadians_spec 90 = - (pi / 2) \<and>
   heading_to_px4_yaw 90 \<noteq> headingDegreesToYawRadians_spec 90"
  by (simp add: heading_to_px4_yaw_def headingDegreesToYawRadians_spec_def fmod_py_def Let_def)

text \<open>
  C3 (amended). For every heading \<open>h\<close> in degrees the conversion normalises \<open>h\<close> modulo
  360, subtracts 360 if the result exceeds 180 and converts to radians, keeping the sign;
  the value lies in \<open>(-\<pi>, \<pi>]\<close>.
\<close>

theorem heading_to_px4_yaw_range:
  "heading_to_px4_yaw h =
     (if h - 360 * of_int \<lfloor>h / 360\<rfloor> > 180
      then h - 360 * of_int \<lfloor>h / 360\<rfloor> - 360
      else h - 360 * of_int \<lfloor>h / 360\<rfloor>) * (pi / 180)
   \<and> - pi < heading_to_px4_yaw h \<and> heading_to_px4_yaw h \<le> pi"
proof -
  define d where "d = (if fmod_py h 360 > 180 then fmod_py h 360 - 360 else fmod_py h 360)"
  have r: "0 \<le> fmod_py h 360 \<and> fmod_py h 360 < 360" by (rule fmod_py_360_range)
  have dr: "- 180 < d \<and> d \<le> 180" using r by (simp add: d_def)
  have c: "0 < pi / 180" by simp
  have e: "heading_to_px4_yaw h = d * (pi / 180)"
    by (simp add: heading_to_px4_yaw_def Let_def d_def)
  have k1: "(180::real) * (pi / 180) = pi" by simp
  have k2: "(- 180::real) * (pi / 180) = - pi" by simp
  have "(- 180) * (pi / 180) < d * (pi / 180)"
    using dr c by (intro mult_strict_right_mono) simp_all
  then have lo: "- pi < heading_to_px4_yaw h" unfolding k2 e .
  have "d * (pi / 180) \<le> 180 * (pi / 180)"
    using dr c by (intro mult_right_mono) simp_all
  then have hi: "heading_to_px4_yaw h \<le> pi" unfolding k1 e .
  have "heading_to_px4_yaw h =
     (if h - 360 * of_int \<lfloor>h / 360\<rfloor> > 180
      then h - 360 * of_int \<lfloor>h / 360\<rfloor> - 360
      else h - 360 * of_int \<lfloor>h / 360\<rfloor>) * (pi / 180)"
    by (simp add: heading_to_px4_yaw_def Let_def fmod_py_def)
  then show ?thesis using lo hi by blast
qed

section \<open>Setpoint tracking: properties\<close>

lemma is_at_traj_setpoint_eq:
  "is_at_traj_setpoint st t =
     Inr (case last_traj_setpoint_msg st of
            None \<Rightarrow> False
          | Some msg \<Rightarrow>
              euclidean_distance (vec3_sub (estimated_position st) (home_coord_offset st))
                (vec3_sub (sp_position msg) (home_coord_offset st)) < t)"
proof (cases "last_traj_setpoint_msg st")
  case None
  then show ?thesis by (simp add: is_at_traj_setpoint_def)
next
  case (Some msg)
  obtain h0 h1 h2 where h: "home_coord_offset st = (h0, h1, h2)"
    by (cases "home_coord_offset st") auto
  obtain a b c where p: "sp_position msg = (a, b, c)"
    by (cases "sp_position msg") auto
  show ?thesis using Some h p
    by (simp add: is_at_traj_setpoint_def get_traj_setpoint_def get_ned_pos_def
        is_at_position_def get_current_ned_pos_def vec3_list_def bind_err_def idx_def
        estimated_position_def Let_def)
qed

lemma publish_trajectory_setpoint_eq:
  "publish_trajectory_setpoint now [tx, ty, tz] yaw st =
     Inr (st\<lparr>last_traj_setpoint_msg := Some
            \<lparr>sp_position = vec3_add (tx, ty, tz) (home_coord_offset st),
             sp_yaw = (case yaw of
                         Some deg \<Rightarrow> deg * (pi / 180)
                       | None \<Rightarrow> lp_heading (vehicle_local_position st)),
             sp_timestamp = now\<rparr>\<rparr>)"
  by (cases "home_coord_offset st")
     (simp add: publish_trajectory_setpoint_def bind_err_def idx_def)

text \<open>
  C4. The arrival query never raises; it returns false when no setpoint has been
  recorded, and otherwise true exactly when the Euclidean distance between the current
  home-relative position and the stored absolute setpoint, taken back to the
  home-relative frame, is strictly below the threshold.
\<close>

theorem is_at_traj_setpoint_strict:
  "is_at_traj_setpoint st t =
     Inr (case last_traj_setpoint_msg st of
            None \<Rightarrow> False
          | Some msg \<Rightarrow>
              euclidean_distance (vec3_sub (estimated_position st) (home_coord_offset st))
                (vec3_sub (sp_position msg) (home_coord_offset st)) < t)"
  by (rule is_at_traj_setpoint_eq)

theorem is_at_traj_setpoint_strict_witness:
  "is_at_traj_setpoint
     (init\<lparr>last_traj_setpoint_msg :=
            Some \<lparr>sp_position = (0, 0.05, 0), sp_yaw = 0, sp_timestamp = 0\<rparr>\<rparr>) 0.05 = Inr False \<and>
   is_at_traj_setpoint
     (init\<lparr>last_traj_setpoint_msg :=
            Some \<lparr>sp_position = (0, 0.05, 0), sp_yaw = 0, sp_timestamp = 0\<rparr>\<rparr>) 0.06 = Inr True \<and>
   is_at_traj_setpoint init 0.05 = Inr False"
proof -
  have r: "sqrt ((1 / 20)\<^sup>2) = 1 / 20" by (simp only: real_sqrt_abs)
  have e: "euclidean_distance (0, 0, 0) (0, 1 / 20, 0) = 1 / 20"
    using r by simp
  show ?thesis
    using e
      is_at_traj_setpoint_strict
        [of "init\<lparr>last_traj_setpoint_msg :=
              Some \<lparr>sp_position = (0, 0.05, 0), sp_yaw = 0, sp_timestamp = 0\<rparr>\<rparr>" "0.05"]
      is_at_traj_setpoint_strict
        [of "init\<lparr>last_traj_setpoint_msg :=
              Some \<lparr>sp_position = (0, 0.05, 0), sp_yaw = 0, sp_timestamp = 0\<rparr>\<rparr>" "0.06"]
      is_at_traj_setpoint_strict [of init "0.05"]
    by (simp add: init_def estimated_position_def VehicleLocalPosition_default_def)
qed

text \<open>
  C5 (the code at the failing input). Recording the setpoint \<open>(0, 1, 0)\<close> on the freshly
  constructed node stores the message, and nothing is handed to the trajectory-setpoint
  publisher.
\<close>

theorem publish_trajectory_setpoint_not_published:
  "publish_trajectory_setpoint 0 [0, 1, 0] None init =
     Inr (init\<lparr>last_traj_setpoint_msg :=
            Some \<lparr>sp_position = (0, 1, 0), sp_yaw = 0, sp_timestamp = 0\<rparr>\<rparr>) \<and>
   trajectory_setpoint_out
     (init\<lparr>last_traj_setpoint_msg :=
            Some \<lparr>sp_position = (0, 1, 0), sp_yaw = 0, sp_timestamp = 0\<rparr>\<rparr>) = []"
  by (simp add: publish_trajectory_setpoint_eq)
     (simp add: init_def VehicleLocalPosition_default_def)

text \<open>
  C6. Recording a setpoint stores target + home offset componentwise as the absolute
  commanded position; the stored yaw is the explicit yaw times \<open>\<pi>/180\<close> when one is
  given and the current heading of the position estimate otherwise.
\<close>

theorem publish_trajectory_setpoint_record:
  "publish_trajectory_setpoint now [tx, ty, tz] yaw st =
     Inr (st\<lparr>last_traj_setpoint_msg := Some
            \<lparr>sp_position = vec3_add (tx, ty, tz) (home_coord_offset st),
             sp_yaw = (case yaw of
                         Some deg \<Rightarrow> deg * (pi / 180)
                       | None \<Rightarrow> lp_heading (vehicle_local_position st)),
             sp_timestamp = now\<rparr>\<rparr>)"
  by (rule publish_trajectory_setpoint_eq)

section \<open>Readiness tracking and the control loop: properties\<close>

text \<open>
  C7. On a vehicle-status update that takes the armed flag from true to false, the
  armed-since timestamp is cleared, the debounce counter is reset to 0 and the mission
  step is left as it was.
\<close>

theorem vehicle_status_callback_disarm:
  "isArmed st \<Longrightarrow> arming_state msg \<noteq> 2 \<Longrightarrow>
   \<not> isArmed (vehicle_status_callback msg st) \<and>
   arm_timestamp (vehicle_status_callback msg st) = None \<and>
   initialization_counter (vehicle_status_callback msg st) = 0 \<and>
   status_var_temp (vehicle_status_callback msg st) = status_var_temp st"
  by (simp add: vehicle_status_callback_def Let_def)

theorem vehicle_status_callback_disarm_witness:
  "isArmed (init\<lparr>isArmed := True, arm_timestamp := Some 5,
                 initialization_counter := 37, status_var_temp := 2\<rparr>) \<and>
   arming_state \<lparr>timestamp = 9, arming_state = 1, takeoff_time = 3, nav_state = 14\<rparr> \<noteq> 2 \<and>
   arm_timestamp (vehicle_status_callback
      \<lparr>timestamp = 9, arming_state = 1, takeoff_time = 3, nav_state = 14\<rparr>
      (init\<lparr>isArmed := True, arm_timestamp := Some 5,
            initialization_counter := 37, status_var_temp := 2\<rparr>)) = None \<and>
   initialization_counter (vehicle_status_callback
      \<lparr>timestamp = 9, arming_state = 1, takeoff_time = 3, nav_state = 14\<rparr>
      (init\<lparr>isArmed := True, arm_timestamp := Some 5,
            initialization_counter := 37, status_var_temp := 2\<rparr>)) = 0 \<and>
   status_var_temp (vehicle_status_callback
      \<lparr>timestamp = 9, arming_state = 1, takeoff_time = 3, nav_state = 14\<rparr>
      (init\<lparr>isArmed := True, arm_timestamp := Some 5,
            initialization_counter := 37, status_var_temp := 2\<rparr>)) = 2"
  using vehicle_status_callback_disarm
    [of "init\<lparr>isArmed := True, arm_timestamp := Some 5,
              initialization_counter := 37, status_var_temp := 2\<rparr>"
        "\<lparr>timestamp = 9, arming_state = 1, takeoff_time = 3, nav_state = 14\<rparr>"]
  by simp

text \<open>
  C8. On a tick at which armed, flying and offboard do not all hold, the only effect
  is the heartbeat: the mission step, the debounce counter, the recorded setpoint and the
  setpoint channel are unchanged.
\<close>

theorem timer_callback_not_ready:
  "\<not> (isArmed st \<and> isFlying st \<and> isOffboard st) \<Longrightarrow>
   timer_callback now st = Inr (publish_offboard_control_heartbeat_signal now st) \<and>
   status_var_temp (publish_offboard_control_heartbeat_signal now st) = status_var_temp st \<and>
   initialization_counter (publish_offboard_control_heartbeat_signal now st) =
     initialization_counter st \<and>
   last_traj_setpoint_msg (publish_offboard_control_heartbeat_signal now st) =
     last_traj_setpoint_msg st \<and>
   trajectory_setpoint_out (publish_offboard_control_heartbeat_signal now st) =
     trajectory_setpoint_out st"
  by (auto simp add: timer_callback_def publish_offboard_control_heartbeat_signal_def Let_def)

theorem timer_callback_not_ready_witness:
  "\<not> (isArmed (init\<lparr>isArmed := True, isFlying := True, initialization_counter := 12,
                      status_var_temp := 2,
                      vehicle_status := Some \<lparr>timestamp = 9, arming_state = 2,
                                               takeoff_time = 3, nav_state = 2\<rparr>\<rparr>) \<and>
       isFlying (init\<lparr>isArmed := True, isFlying := True, initialization_counter := 12,
                      status_var_temp := 2,
                      vehicle_status := Some \<lparr>timestamp = 9, arming_state = 2,
                                               takeoff_time = 3, nav_state = 2\<rparr>\<rparr>) \<and>
       isOffboard (init\<lparr>isArmed := True, isFlying := True, initialization_counter := 12,
                      status_var_temp := 2,
                      vehicle_status := Some \<lparr>timestamp = 9, arming_state = 2,
                                               takeoff_time = 3, nav_state = 2\<rparr>\<rparr>)) \<and>
   timer_callback 7 (init\<lparr>isArmed := True, isFlying := True, initialization_counter := 12,
                      status_var_temp := 2,
                      vehicle_status := Some \<lparr>timestamp = 9, arming_state = 2,
                                               takeoff_time = 3, nav_state = 2\<rparr>\<rparr>) =
     Inr (publish_offboard_control_heartbeat_signal 7
            (init\<lparr>isArmed := True, isFlying := True, initialization_counter := 12,
                  status_var_temp := 2,
                  vehicle_status := Some \<lparr>timestamp = 9, arming_state = 2,
                                           takeoff_time = 3, nav_state = 2\<rparr>\<rparr>))"
  using timer_callback_not_ready
    [of "init\<lparr>isArmed := True, isFlying := True, initialization_counter := 12,
              status_var_temp := 2,
              vehicle_status := Some \<lparr>timestamp = 9, arming_state = 2,
                                       takeoff_time = 3, nav_state = 2\<rparr>\<rparr>" 7]
  by (simp add: init_def)

section \<open>Mission sequencer: properties\<close>

lemma ned_point_current_eq:
  "ned_point_from_flu_offset st (get_current_ned_pos st) [f, l, u] =
     Inr (case home_coord_offset st of (h0, h1, h2) \<Rightarrow>
       [lp_x (vehicle_local_position st) - h0
          + (f * cos (lp_heading (vehicle_local_position st))
             + l * sin (lp_heading (vehicle_local_position st))),
        lp_y (vehicle_local_position st) - h1
          + (f * sin (lp_heading (vehicle_local_position st))
             - l * cos (lp_heading (vehicle_local_position st))),
        lp_z (vehicle_local_position st) - h2 + - u])"
  by (cases "home_coord_offset st")
     (simp add: ned_point_from_flu_offset_def get_current_ned_pos_def idx_def bind_err_def Let_def)

lemma mission_step_eq:
  "mission_step now st =
     Inr (if status_var_temp st = 0 then st\<lparr>status_var_temp := 1\<rparr>
          else if status_var_temp st = 1 then (record_offset now (- 1) st)\<lparr>status_var_temp := 2\<rparr>
          else if status_var_temp st = 2 then
            (if is_at_traj_setpoint st 0.05 = Inr True then st\<lparr>status_var_temp := 3\<rparr> else st)
          else if status_var_temp st = 3 then (record_offset now 1 st)\<lparr>status_var_temp := 4\<rparr>
          else if status_var_temp st = 4 then
            (if is_at_traj_setpoint st 0.05 = Inr True then st\<lparr>status_var_temp := 5\<rparr> else st)
          else if status_var_temp st = 5 then st\<lparr>status_var_temp := 6\<rparr>
          else st)"
proof -
  obtain h0 h1 h2 where h: "home_coord_offset st = (h0, h1, h2)"
    by (cases "home_coord_offset st") auto
  obtain b where b: "is_at_traj_setpoint st 0.05 = Inr b"
    using is_at_traj_setpoint_eq by blast
  show ?thesis
    unfolding mission_step_def using b
    by (cases b)
       (simp_all add: ned_point_current_eq publish_trajectory_setpoint_eq h bind_err_def
        record_offset_def)
qed


lemma vehicle_status_callback_frame:
  "status_var_temp (vehicle_status_callback msg st) = status_var_temp st"
  "last_traj_setpoint_msg (vehicle_status_callback msg st) = last_traj_setpoint_msg st"
  "trajectory_setpoint_out (vehicle_status_callback msg st) = trajectory_setpoint_out st"
  "vehicle_local_position (vehicle_status_callback msg st) = vehicle_local_position st"
  by (simp_all add: vehicle_status_callback_def Let_def)

lemma timer_callback_eq:
  "timer_callback now st =
     Inr (let s0 = publish_offboard_control_heartbeat_signal now st in
          if vehicle_status s0 = None then s0
          else if isArmed s0 \<and> isFlying s0 \<and> isOffboard s0 then
            (if initialization_counter s0 \<ge> 50
             then (case mission_step now s0 of Inr s1 \<Rightarrow> s1 | Inl e \<Rightarrow> s0)
             else s0\<lparr>initialization_counter := initialization_counter s0 + 1\<rparr>)
          else s0)"
  by (simp add: timer_callback_def Let_def mission_step_eq)

lemma timer_callback_progress:
  assumes "timer_callback now st = Inr st'"
  shows "status_var_temp st \<le> status_var_temp st'"
    and "status_var_temp st' \<le> status_var_temp st + 1"
    and "trajectory_setpoint_out st' = trajectory_setpoint_out st"
    and "status_var_temp st = 6 \<Longrightarrow> status_var_temp st' = 6"
    and "status_var_temp st = 6 \<Longrightarrow> last_traj_setpoint_msg st' = last_traj_setpoint_msg st"
  using assms
  by (auto simp add: timer_callback_def Let_def mission_step_eq record_offset_def
      publish_offboard_control_heartbeat_signal_def split: if_splits)

lemma step_total: "\<exists>st'. step e st = Inr st'"
  by (cases e) (simp_all add: timer_callback_eq)

lemma step_progress:
  assumes "step e st = Inr st'"
  shows "status_var_temp st \<le> status_var_temp st' \<and>
         status_var_temp st' \<le> status_var_temp st + (if is_tick e then 1 else 0) \<and>
         trajectory_setpoint_out st' = trajectory_setpoint_out st \<and>
         (status_var_temp st = 6 \<longrightarrow>
            status_var_temp st' = 6 \<and> last_traj_setpoint_msg st' = last_traj_setpoint_msg st)"
proof (cases e)
  case (Tick now)
  then have t: "timer_callback now st = Inr st'" using assms by simp
  show ?thesis using timer_callback_progress [OF t] Tick by simp
next
  case (StatusMsg msg)
  then have "st' = vehicle_status_callback msg st" using assms by simp
  then show ?thesis by (simp add: vehicle_status_callback_frame)
next
  case (LocalPositionMsg msg)
  then have "st' = vehicle_local_position_callback msg st" using assms by simp
  then show ?thesis by (simp add: vehicle_local_position_callback_def)
next
  case (OdometryMsg msg)
  then have "st' = vehicle_odometry_callback msg st" using assms by simp
  then show ?thesis by (simp add: vehicle_odometry_callback_def)
next
  case (BatteryMsg msg)
  then have "st' = battery_status_callback msg st" using assms by simp
  then show ?thesis by (simp add: battery_status_callback_def)
qed

lemma run_append: "run (xs @ ys) st = bind_err (run xs st) (run ys)"
  by (induction xs arbitrary: st) (auto simp add: bind_err_def split: sum.splits)

lemma run_debounce:
  "vehicle_status st \<noteq> None \<Longrightarrow> isArmed st \<Longrightarrow> isFlying st \<Longrightarrow> isOffboard st \<Longrightarrow>
   initialization_counter st + int n \<le> 50 \<Longrightarrow>
   run (replicate n (Tick now)) st =
     Inr (st\<lparr>initialization_counter := initialization_counter st + int n,
            offboard_control_mode_out := offboard_control_mode_out st @
              replicate n \<lparr>ocm_position = True, ocm_velocity = False,
                ocm_acceleration = False, ocm_attitude = False, ocm_body_rate = False,
                ocm_timestamp = now\<rparr>\<rparr>)"
proof (induction n arbitrary: st)
  case 0
  then show ?case by simp
next
  case (Suc n)
  let ?s1 = "(publish_offboard_control_heartbeat_signal now st)
               \<lparr>initialization_counter := initialization_counter st + 1\<rparr>"
  have t: "timer_callback now st = Inr ?s1"
    using Suc.prems
    by (auto simp add: timer_callback_def Let_def publish_offboard_control_heartbeat_signal_def)
  have "run (replicate n (Tick now)) ?s1 =
     Inr (?s1\<lparr>initialization_counter := initialization_counter ?s1 + int n,
            offboard_control_mode_out := offboard_control_mode_out ?s1 @
              replicate n \<lparr>ocm_position = True, ocm_velocity = False,
                ocm_acceleration = False, ocm_attitude = False, ocm_body_rate = False,
                ocm_timestamp = now\<rparr>\<rparr>)"
    using Suc.prems
    by (intro Suc.IH) (simp_all add: publish_offboard_control_heartbeat_signal_def)
  then show ?case using t
    by (simp add: bind_err_def publish_offboard_control_heartbeat_signal_def
        replicate_app_Cons_same)
qed

text \<open>
  C10 (as stated, refuted). After the mission has reached its final step 6, a disarm
  and re-arm leaves the debounce counter at 0, and the next tick changes it to 1: the
  final step does not freeze all of the sequencer's state.
\<close>

theorem final_step_debounce_counterexample:
  "bind_err (run (StatusMsg ready_status # replicate 50 (Tick 0) @
        [Tick 0, Tick 0, LocalPositionMsg (local_position_at 0 1 0), Tick 0, Tick 0,
         LocalPositionMsg (local_position_at 0 0 0), Tick 0, Tick 0,
         StatusMsg disarmed_status, StatusMsg ready_status]) init)
      (\<lambda>s. bind_err (timer_callback 0 s)
        (\<lambda>s'. Inr (status_var_temp s, initialization_counter s,
                   status_var_temp s', initialization_counter s'))) = Inr (6, 0, 6, 1)"
  by (simp add: run_append run_debounce bind_err_def ready_status_def disarmed_status_def
      local_position_at_def vehicle_local_position_callback_def
      vehicle_status_callback_def init_def Let_def VehicleLocalPosition_default_def
      timer_callback_eq mission_step_eq record_offset_def
      publish_offboard_control_heartbeat_signal_def is_at_traj_setpoint_eq
      estimated_position_def)

text \<open>
  C10 (amended). Over every sequence of ticks and telemetry callbacks, from every state,
  no callback raises, the mission step never decreases, it grows by at most one per tick,
  and nothing is handed to the setpoint publisher; once the step is 6 it stays 6 and the
  recorded setpoint is never replaced. (The debounce counter is not covered: a disarm
  resets it and ticks count it up again.)
\<close>

theorem mission_step_monotone:
  "\<exists>st'. run evs st = Inr st' \<and>
     status_var_temp st \<le> status_var_temp st' \<and>
     status_var_temp st' \<le> status_var_temp st + int (length (filter is_tick evs)) \<and>
     trajectory_setpoint_out st' = trajectory_setpoint_out st \<and>
     (status_var_temp st = 6 \<longrightarrow>
        status_var_temp st' = 6 \<and> last_traj_setpoint_msg st' = last_traj_setpoint_msg st)"
proof (induction evs arbitrary: st)
  case Nil
  then show ?case by simp
next
  case (Cons e es)
  obtain s1 where s1: "step e st = Inr s1" using step_total by blast
  obtain s2 where s2: "run es s1 = Inr s2"
    and a: "status_var_temp s1 \<le> status_var_temp s2"
    and b: "status_var_temp s2 \<le> status_var_temp s1 + int (length (filter is_tick es))"
    and c: "trajectory_setpoint_out s2 = trajectory_setpoint_out s1"
    and d: "status_var_temp s1 = 6 \<longrightarrow>
        status_var_temp s2 = 6 \<and> last_traj_setpoint_msg s2 = last_traj_setpoint_msg s1"
    using Cons.IH [of s1] by blast
  have r: "run (e # es) st = Inr s2" using s1 s2 by (simp add: bind_err_def)
  show ?case
    using r a b c d step_progress [OF s1]
    by (cases "is_tick e") auto
qed



theorem mission_step_monotone_witness:
  "status_var_temp (init\<lparr>status_var_temp := 6\<rparr>) = 6 \<and>
   (\<exists>st'. run [Tick 0, StatusMsg ready_status, Tick 1] (init\<lparr>status_var_temp := 6\<rparr>) = Inr st' \<and>
          status_var_temp st' = 6 \<and> last_traj_setpoint_msg st' = None \<and>
          trajectory_setpoint_out st' = [])"
  using mission_step_monotone [of "[Tick 0, StatusMsg ready_status, Tick 1]" "init\<lparr>status_var_temp := 6\<rparr>"]
  by (auto simp add: init_def)

lemma no_position_inv_init: "no_position_inv init"
  by (simp add: no_position_inv_def init_def)

lemma no_position_inv_arrival:
  assumes "no_position_inv st"
  shows "is_at_traj_setpoint st t = Inr (last_traj_setpoint_msg st \<noteq> None \<and> 1 < t)"
proof (cases "last_traj_setpoint_msg st")
  case None
  then show ?thesis by (simp add: is_at_traj_setpoint_eq)
next
  case (Some msg)
  obtain h0 h1 h2 where h: "home_coord_offset st = (h0, h1, h2)"
    by (cases "home_coord_offset st") auto
  have p: "sp_position msg = (0, 1, 0)"
    using assms Some by (simp add: no_position_inv_def)
  have v: "estimated_position st = (0, 0, 0)"
    using assms by (simp add: no_position_inv_def estimated_position_def
        VehicleLocalPosition_default_def)
  show ?thesis using Some h p v by (simp add: is_at_traj_setpoint_eq)
qed

lemma no_position_inv_tick:
  assumes "no_position_inv st" and "timer_callback now st = Inr st'"
  shows "no_position_inv st'"
proof -
  have a: "is_at_traj_setpoint (publish_offboard_control_heartbeat_signal now st) 0.05 \<noteq> Inr True"
  proof -
    have "no_position_inv (publish_offboard_control_heartbeat_signal now st)"
      using assms(1)
      by (simp add: no_position_inv_def publish_offboard_control_heartbeat_signal_def)
    then show ?thesis by (simp add: no_position_inv_arrival)
  qed
  show ?thesis
    using assms a
    by (auto simp add: timer_callback_def Let_def mission_step_eq record_offset_def
        no_position_inv_def publish_offboard_control_heartbeat_signal_def
        VehicleLocalPosition_default_def split: if_splits)
qed

lemma no_position_inv_step:
  assumes "no_position_inv st" and "\<not> is_position_event e" and "step e st = Inr st'"
  shows "no_position_inv st'"
proof (cases e)
  case (Tick now)
  then show ?thesis using assms no_position_inv_tick by auto
next
  case (StatusMsg msg)
  then have "st' = vehicle_status_callback msg st" using assms by simp
  then show ?thesis using assms(1)
    by (simp add: no_position_inv_def vehicle_status_callback_frame)
next
  case (LocalPositionMsg msg)
  then show ?thesis using assms by simp
next
  case (OdometryMsg msg)
  then show ?thesis using assms
    by (auto simp add: no_position_inv_def vehicle_odometry_callback_def)
next
  case (BatteryMsg msg)
  then show ?thesis using assms
    by (auto simp add: no_position_inv_def battery_status_callback_def)
qed

lemma no_position_inv_run:
  "no_position_inv st \<Longrightarrow> list_all (\<lambda>e. \<not> is_position_event e) evs \<Longrightarrow>
   \<exists>st'. run evs st = Inr st' \<and> no_position_inv st'"
proof (induction evs arbitrary: st)
  case Nil
  then show ?case by simp
next
  case (Cons e es)
  obtain s1 where s1: "step e st = Inr s1" using step_total by blast
  have "no_position_inv s1" using Cons.prems s1 no_position_inv_step by auto
  then obtain s2 where "run es s1 = Inr s2" and "no_position_inv s2"
    using Cons.IH Cons.prems by auto
  then show ?case using s1 by (auto simp add: bind_err_def)
qed

text \<open>
  The run used below: the vehicle reports armed, flying and offboard, fifty ticks fill
  the debounce counter, and two more ticks take the mission to step 2, where the first
  setpoint is recorded. No position estimate arrives. In the state reached a setpoint is
  stored, and the stored setpoint lies exactly 1 m from the default-constructed position:
  an arrival check with a threshold above 1 m would answer "arrived" there.
\<close>

lemma first_setpoint_run:
  "bind_err (run (StatusMsg ready_status # replicate 50 (Tick 0) @ [Tick 0, Tick 0]) init)
      (\<lambda>st. Inr (last_traj_setpoint_msg st \<noteq> None, status_var_temp st,
                  is_at_traj_setpoint st 2)) = Inr (True, 2, Inr True)"
  by (simp add: run_append run_debounce bind_err_def ready_status_def
      vehicle_status_callback_def init_def Let_def VehicleLocalPosition_default_def
      timer_callback_eq mission_step_eq record_offset_def
      publish_offboard_control_heartbeat_signal_def is_at_traj_setpoint_eq
      estimated_position_def)

text \<open>
  C9. If no position estimate has ever been received, then in every state the node
  reaches from start-up by ticks and the other callbacks, every arrival check with a
  threshold of at most 1 m returns "not arrived", also when a setpoint has already been
  recorded, and the mission step never passes 2: the mission stalls. The thresholds the
  program uses are 0.05 m (\<^verbatim>\<open>timer_callback\<close>) and the default 0.5 m.
\<close>

theorem arrival_without_position_estimate:
  "list_all (\<lambda>e. \<not> is_position_event e) evs \<Longrightarrow> t \<le> 1 \<Longrightarrow>
   \<exists>st. run evs init = Inr st \<and>
        is_at_traj_setpoint st t = Inr False \<and>
        status_var_temp st \<le> 2"
proof -
  assume "list_all (\<lambda>e. \<not> is_position_event e) evs" and t: "t \<le> 1"
  then obtain st where r: "run evs init = Inr st" and i: "no_position_inv st"
    using no_position_inv_run [OF no_position_inv_init] by blast
  have s: "status_var_temp st \<le> 2"
    using i by (auto simp add: no_position_inv_def split: if_splits)
  have "is_at_traj_setpoint st t = Inr False"
    using no_position_inv_arrival [OF i] t by simp
  then show ?thesis using r s by blast
qed

theorem arrival_without_position_estimate_witness:
  "list_all (\<lambda>e. \<not> is_position_event e)
     (StatusMsg ready_status # replicate 50 (Tick 0) @ [Tick 0, Tick 0]) \<and>
   (0.05 :: real) \<le> 1 \<and>
   (\<exists>st. run (StatusMsg ready_status # replicate 50 (Tick 0) @ [Tick 0, Tick 0]) init = Inr st \<and>
         last_traj_setpoint_msg st \<noteq> None \<and>
         status_var_temp st = 2 \<and>
         is_at_traj_setpoint st 0.05 = Inr False)"
proof -
  let ?evs = "StatusMsg ready_status # replicate 50 (Tick 0) @ [Tick 0, Tick 0]"
  have h: "list_all (\<lambda>e. \<not> is_position_event e) ?evs"
    by (simp add: list_all_iff)
  have b: "(0.05 :: real) \<le> 1" by simp
  obtain st where r: "run ?evs init = Inr st"
    and f: "is_at_traj_setpoint st 0.05 = Inr False"
    using arrival_without_position_estimate [OF h b] by blast
  have "last_traj_setpoint_msg st \<noteq> None \<and> status_var_temp st = 2"
    using first_setpoint_run r by (simp add: bind_err_def)
  then show ?thesis using h r f by simp
qed

end
